theory Spec2Isabelle
  imports Main "HOL-Library.Word"
begin

section \<open>GinMetric: the ginprom instrumentation middleware\<close>

text \<open>
  A shallow embedding of package \<open>ginprom\<close> (the second part of \<open>src/main.go\<close>):
  \<open>calcRequestSize\<close>, \<open>checkLabel\<close>, \<open>NewDefaultOpts\<close>, \<open>PromMiddleware\<close> and
  \<open>recordUpTime\<close>.

  Conventions.
  \<^item> A Go \<open>string\<close> is a byte sequence, here \<open>string\<close> (a \<open>char list\<close>); Go's \<open>len\<close>
    is \<open>length\<close>.
  \<^item> Go's \<open>int\<close> and \<open>int64\<close> are 64-bit two's complement words (a 64-bit platform):
    \<open>+\<close> wraps, \<open>sint\<close> reads the signed value.
  \<^item> A pointer that the source compares with \<open>nil\<close> is an \<open>option\<close>; dereferencing
    \<open>None\<close> is the run-time panic \<open>NilPointerDereference\<close>.
  \<^item> A function that may panic returns \<open>panic + 'a\<close>, with \<open>Inl\<close> the panic.
  \<^item> The conversions to \<open>float64\<close> (\<open>float64(size)\<close>, \<open>Duration.Seconds()\<close>) are not
    modelled: an observation is kept as the integer that is converted (bytes,
    nanoseconds).
\<close>

subsection \<open>Requests\<close>

datatype panic = NilPointerDereference

text \<open>
  \<open>*url.URL\<close>, reduced to what the package reads: the field \<open>Path\<close> and the text
  that the method \<open>String()\<close> returns.
\<close>

record url =
  Path :: string
  url_String :: string

text \<open>
  \<open>http.Request\<close>: the fields that the package reads. \<open>Header\<close> is a Go map from a
  name to a list of values; the source only sums lengths over it, so the association
  list in any iteration order stands for it.
\<close>

record request =
  URL :: "url option"
  Method :: string
  Proto :: string
  Header :: "(string \<times> string list) list"
  Host :: string
  ContentLength :: "64 word"

text \<open>\<open>r.URL.String()\<close> and \<open>r.URL.Path\<close>: both dereference the pointer \<open>r.URL\<close>.\<close>

definition URL_String :: "url option \<Rightarrow> panic + string" where
  "URL_String p = (case p of None \<Rightarrow> Inl NilPointerDereference | Some u \<Rightarrow> Inr (url_String u))"

definition URL_Path :: "url option \<Rightarrow> panic + string" where
  "URL_Path p = (case p of None \<Rightarrow> Inl NilPointerDereference | Some u \<Rightarrow> Inr (Path u))"

definition len :: "string \<Rightarrow> 64 word" where
  "len s = of_nat (length s)"

subsection \<open>calcRequestSize\<close>

text \<open>The inner loop \<open>for _, value := range values { size += len(value) }\<close>.\<close>

fun valuesSize :: "64 word \<Rightarrow> string list \<Rightarrow> 64 word" where
  "valuesSize sz [] = sz"
| "valuesSize sz (v # values) = valuesSize (sz + len v) values"

text \<open>The outer loop \<open>for name, values := range r.Header { size += len(name); ... }\<close>.\<close>

fun headerSize :: "64 word \<Rightarrow> (string \<times> string list) list \<Rightarrow> 64 word" where
  "headerSize sz [] = sz"
| "headerSize sz ((name, values) # h) = headerSize (valuesSize (sz + len name) values) h"

text \<open>
  \<open>calcRequestSize\<close>, statement by statement. The first statement reads
  \<open>r.URL.String()\<close> in the branch where \<open>r.URL == nil\<close>. The result is the signed
  value of \<open>size\<close>, which the source converts to \<open>float64\<close>.
\<close>

definition calcRequestSize :: "request \<Rightarrow> panic + int" where
  "calcRequestSize r =
     (case (if URL r = None then map_sum id len (URL_String (URL r)) else Inr 0) of
        Inl e \<Rightarrow> Inl e
      | Inr size0 \<Rightarrow>
          let size1 = size0 + len (Method r);
              size2 = size1 + len (Proto r);
              size3 = headerSize size2 (Header r);
              size4 = size3 + len (Host r);
              size5 = (if ContentLength r \<noteq> - 1 then size4 + ContentLength r else size4)
          in Inr (sint size5))"

subsection \<open>Options and checkLabel\<close>

text \<open>
  Package \<open>regexp\<close> is a parameter of the model: \<open>compile\<close> is \<open>regexp.Compile\<close>
  (\<open>Inl\<close> when the pattern has a syntax error) and \<open>matches\<close> is the method
  \<open>MatchString\<close> of a compiled expression. \<open>regexp_MatchString\<close> is the library's
  \<open>regexp.MatchString(pattern, s)\<close>: compile, then match.
\<close>

datatype regexp_error = ErrMissingParen | ErrTrailingBackslash | ErrUnsupported

record 're regexp =
  compile :: "string \<Rightarrow> regexp_error + 're"
  matches :: "'re \<Rightarrow> string \<Rightarrow> bool"

definition regexp_MatchString :: "'re regexp \<Rightarrow> string \<Rightarrow> string \<Rightarrow> regexp_error + bool" where
  "regexp_MatchString rx pattern s =
     (case compile rx pattern of Inl err \<Rightarrow> Inl err | Inr re \<Rightarrow> Inr (matches rx re s))"

definition checkLabel :: "'re regexp \<Rightarrow> string \<Rightarrow> string \<Rightarrow> bool" where
  "checkLabel rx label pattern =
     (if pattern = [] then True
      else case regexp_MatchString rx pattern label of
             Inl err \<Rightarrow> True
           | Inr matched \<Rightarrow> \<not> matched)"

text \<open>What the methods \<open>Status()\<close> and \<open>Size()\<close> of \<open>c.Writer\<close> return.\<close>

record responseWriter =
  Status :: int
  Size :: int

text \<open>
  \<open>gin.Context\<close> as the handler reads it once \<open>c.Next()\<close> has returned: the request
  and the response writer.
\<close>

record gin_Context =
  Request :: request
  Writer :: responseWriter

text \<open>
  \<open>PromOpts\<close>. A \<open>RequestLabelMappingFn\<close> is a Go function value: it may be \<open>nil\<close>,
  and it may panic when called.
\<close>

type_synonym RequestLabelMappingFn = "gin_Context \<Rightarrow> panic + string"

record PromOpts =
  ExcludeRegexStatus :: string
  ExcludeRegexEndpoint :: string
  ExcludeRegexMethod :: string
  EndpointLabelMappingFn :: "RequestLabelMappingFn option"

text \<open>The function literal \<open>func(c *gin.Context) string { return c.Request.URL.Path }\<close>.\<close>

definition rawPath :: RequestLabelMappingFn where
  "rawPath c = URL_Path (URL (Request c))"

definition NewDefaultOpts :: PromOpts where
  "NewDefaultOpts =
     \<lparr>ExcludeRegexStatus = [], ExcludeRegexEndpoint = [], ExcludeRegexMethod = [],
      EndpointLabelMappingFn = Some rawPath\<rparr>"

subsection \<open>strconv.Itoa\<close>

text \<open>The decimal digits of a natural number, most significant first.\<close>

definition digit :: "nat \<Rightarrow> char" where
  "digit d = char_of (48 + d)"

fun digits :: "nat \<Rightarrow> string" where
  "digits n = (if n < 10 then [digit n] else digits (n div 10) @ [digit (n mod 10)])"

declare digits.simps [simp del]

definition Itoa :: "int \<Rightarrow> string" where
  "Itoa i = (if i < 0 then CHR ''-'' # digits (nat (- i)) else digits (nat i))"

subsection \<open>The metric registry\<close>

text \<open>
  The five collectors of the package. A counter is the number of \<open>Inc()\<close> calls on it;
  a histogram or summary is the sequence of values passed to \<open>Observe\<close>, oldest first.
  A labelled collector holds one such series for each list of label values;
  \<open>WithLabelValues(lvs...)\<close> selects the series. The collectors are those of the
  Prometheus client library, which is not part of the package: its own checks on label
  values and the wrap-around of its counters are not modelled.
\<close>

type_synonym label_values = "string list"

record registry =
  uptime :: nat
  reqCount :: "label_values \<Rightarrow> nat"
  reqDuration :: "label_values \<Rightarrow> int list"
  reqSizeBytes :: "label_values \<Rightarrow> int list"
  respSizeBytes :: "label_values \<Rightarrow> int list"

definition Inc :: "(label_values \<Rightarrow> nat) \<Rightarrow> label_values \<Rightarrow> (label_values \<Rightarrow> nat)" where
  "Inc vec lvs = vec(lvs := vec lvs + 1)"

definition Observe ::
  "(label_values \<Rightarrow> int list) \<Rightarrow> label_values \<Rightarrow> int \<Rightarrow> (label_values \<Rightarrow> int list)" where
  "Observe vec lvs v = vec(lvs := vec lvs @ [v])"

definition emptyRegistry :: registry where
  "emptyRegistry =
     \<lparr>uptime = 0, reqCount = (\<lambda>lvs. 0), reqDuration = (\<lambda>lvs. []),
      reqSizeBytes = (\<lambda>lvs. []), respSizeBytes = (\<lambda>lvs. [])\<rparr>"

subsection \<open>recordUpTime\<close>

text \<open>
  \<open>for range time.Tick(time.Second) { uptime.WithLabelValues().Inc() }\<close>: one
  iteration for each tick that the channel delivers. The loop never returns; the first
  argument is the number of ticks delivered so far.
\<close>

fun recordUpTime :: "nat \<Rightarrow> registry \<Rightarrow> registry" where
  "recordUpTime 0 reg = reg"
| "recordUpTime (Suc n) reg = recordUpTime n (reg\<lparr>uptime := uptime reg + 1\<rparr>)"

subsection \<open>PromMiddleware\<close>

text \<open>
  Lines 193 to 195 of the handler: the three label values. Calling a \<open>nil\<close> function
  value panics.
\<close>

definition labelValues :: "PromOpts \<Rightarrow> gin_Context \<Rightarrow> panic + (string \<times> string \<times> string)" where
  "labelValues promOpts c =
     (let status = Itoa (Status (Writer c)) in
      case (case EndpointLabelMappingFn promOpts of
              None \<Rightarrow> Inl NilPointerDereference
            | Some f \<Rightarrow> f c) of
        Inl e \<Rightarrow> Inl e
      | Inr endpoint \<Rightarrow>
          let method = Method (Request c)
          in Inr (status, endpoint, method))"

text \<open>
  The handler that \<open>PromMiddleware\<close> returns, from the point where \<open>c.Next()\<close> has
  returned. \<open>start\<close> is the reading of \<open>time.Now()\<close> taken before \<open>c.Next()\<close> and
  \<open>now\<close> the reading that \<open>time.Since(start)\<close> takes, both in nanoseconds. The result
  is the registry as the handler leaves it and the panic, if any, that ended it: the
  updates made before a panic stay.
\<close>

definition handler ::
  "'re regexp \<Rightarrow> PromOpts \<Rightarrow> int \<Rightarrow> int \<Rightarrow> gin_Context \<Rightarrow> registry \<Rightarrow> registry \<times> panic option" where
  "handler rx promOpts start now c reg =
     (case labelValues promOpts c of
        Inl e \<Rightarrow> (reg, Some e)
      | Inr (status, endpoint, method) \<Rightarrow>
          let lvs = [status, endpoint, method];
              ok = (checkLabel rx status (ExcludeRegexStatus promOpts) \<and>
                    checkLabel rx endpoint (ExcludeRegexEndpoint promOpts) \<and>
                    checkLabel rx method (ExcludeRegexMethod promOpts))
          in if \<not> ok then (reg, None)
             else
               let respSize = Size (Writer c);
                   respSize = (if respSize < 0 then 0 else respSize);
                   reg1 = reg\<lparr>reqCount := Inc (reqCount reg) lvs\<rparr>;
                   reg2 = reg1\<lparr>reqDuration := Observe (reqDuration reg1) lvs (now - start)\<rparr>
               in (case calcRequestSize (Request c) of
                     Inl e \<Rightarrow> (reg2, Some e)
                   | Inr reqSize \<Rightarrow>
                       let reg3 = reg2\<lparr>reqSizeBytes := Observe (reqSizeBytes reg2) lvs reqSize\<rparr>;
                           reg4 = reg3\<lparr>respSizeBytes := Observe (respSizeBytes reg3) lvs respSize\<rparr>
                       in (reg4, None)))"

definition PromMiddleware ::
  "'re regexp \<Rightarrow> PromOpts option \<Rightarrow> int \<Rightarrow> int \<Rightarrow> gin_Context \<Rightarrow> registry \<Rightarrow> registry \<times> panic option" where
  "PromMiddleware rx promOpts =
     (let promOpts1 = (case promOpts of None \<Rightarrow> NewDefaultOpts | Some p \<Rightarrow> p);
          promOpts2 = (if EndpointLabelMappingFn promOpts1 = None
                       then promOpts1\<lparr>EndpointLabelMappingFn := Some rawPath\<rparr>
                       else promOpts1)
      in handler rx promOpts2)"

subsection \<open>Notions of the specification\<close>

text \<open>
  The exact byte count that \<open>calcRequestSize\<close> sums when the URL is present, as an
  unbounded number: method, protocol, every header name and value, and host.
\<close>

definition headerBytes :: "(string \<times> string list) list \<Rightarrow> nat" where
  "headerBytes h = (\<Sum>(name, values) \<leftarrow> h. length name + (\<Sum>v \<leftarrow> values. length v))"

definition partsSize :: "request \<Rightarrow> nat" where
  "partsSize r = length (Method r) + length (Proto r) + headerBytes (Header r) + length (Host r)"


text \<open>
  The three exclusion patterns in effect: those of the options, and none when the
  options are absent.
\<close>

definition spec_patterns :: "PromOpts option \<Rightarrow> string \<times> string \<times> string" where
  "spec_patterns popts =
     (case popts of
        None \<Rightarrow> ([], [], [])
      | Some opts \<Rightarrow> (ExcludeRegexStatus opts, ExcludeRegexEndpoint opts, ExcludeRegexMethod opts))"

text \<open>
  A label value matches a configured suppression pattern: the pattern is set (not
  empty), it compiles, and the compiled expression matches the value.
\<close>

definition labelMatches :: "'re regexp \<Rightarrow> string \<Rightarrow> string \<Rightarrow> bool" where
  "labelMatches rx pattern label =
     (pattern \<noteq> [] \<and> (case compile rx pattern of Inl err \<Rightarrow> False | Inr re \<Rightarrow> matches rx re label))"

text \<open>
  The endpoint label of the specification: the result of the configured
  endpoint-mapping function, and the raw request path when no options or no mapping
  function are supplied.
\<close>

definition spec_endpointLabel :: "PromOpts option \<Rightarrow> gin_Context \<Rightarrow> panic + string" where
  "spec_endpointLabel popts c =
     (case popts of
        None \<Rightarrow> rawPath c
      | Some opts \<Rightarrow> (case EndpointLabelMappingFn opts of None \<Rightarrow> rawPath c | Some f \<Rightarrow> f c))"

text \<open>
  The label tuple of the specification: the decimal string of the final status code,
  the endpoint label, and the method string verbatim.
\<close>

definition spec_labelTuple :: "PromOpts option \<Rightarrow> gin_Context \<Rightarrow> panic + (string \<times> string \<times> string)" where
  "spec_labelTuple popts c =
     (case spec_endpointLabel popts c of
        Inl e \<Rightarrow> Inl e
      | Inr endpoint \<Rightarrow> Inr (Itoa (Status (Writer c)), endpoint, Method (Request c)))"

text \<open>Reading a decimal string back: an optional minus sign, then decimal digits.\<close>

definition digitValue :: "char \<Rightarrow> nat option" where
  "digitValue ch =
     (let n = (of_char ch :: nat) in if 48 \<le> n \<and> n \<le> 57 then Some (n - 48) else None)"



subsection \<open>A sample regular-expression engine\<close>

text \<open>
  An instance of the \<open>regexp\<close> parameter for the concrete examples. It covers the
  patterns that are a sequence of literal characters, \<open>\d\<close>, \<open>^\<close> and \<open>$\<close>, with
  the meaning that Go's package gives them (no flags: \<open>^\<close> and \<open>$\<close> are the
  beginning and the end of the text, a match may start anywhere). As in Go, an opening
  parenthesis that is never closed and a trailing backslash are syntax errors.
  \<open>ErrUnsupported\<close> marks a pattern outside this fragment, about which the sample
  says nothing.
\<close>

datatype atom = Lit char | Digit | Bol | Eol

fun sample_compile :: "string \<Rightarrow> regexp_error + atom list" where
  "sample_compile [] = Inr []"
| "sample_compile (ch # cs) =
     (if ch = CHR ''^'' then map_sum id ((#) Bol) (sample_compile cs)
      else if ch = CHR ''$'' then map_sum id ((#) Eol) (sample_compile cs)
      else if ch = CHR 0x5C then
        (case cs of
           [] \<Rightarrow> Inl ErrTrailingBackslash
         | d # rest \<Rightarrow>
             if d = CHR ''d'' then map_sum id ((#) Digit) (sample_compile rest)
             else Inl ErrUnsupported)
      else if ch = CHR ''('' \<and> CHR '')'' \<notin> set cs then Inl ErrMissingParen
      else if ch \<in> set ''()[]{}*+?|.'' then Inl ErrUnsupported
      else map_sum id ((#) (Lit ch)) (sample_compile cs))"

text \<open>
  \<open>matchHere atStart re s\<close>: the expression matches a prefix of \<open>s\<close>, where
  \<open>atStart\<close> tells whether \<open>s\<close> is the whole text.
\<close>

fun matchHere :: "bool \<Rightarrow> atom list \<Rightarrow> string \<Rightarrow> bool" where
  "matchHere atStart [] s = True"
| "matchHere atStart (Bol # re) s = (atStart \<and> matchHere atStart re s)"
| "matchHere atStart (Eol # re) s = (s = [] \<and> matchHere atStart re s)"
| "matchHere atStart (Lit x # re) [] = False"
| "matchHere atStart (Lit x # re) (ch # cs) = (x = ch \<and> matchHere False re cs)"
| "matchHere atStart (Digit # re) [] = False"
| "matchHere atStart (Digit # re) (ch # cs) = (digitValue ch \<noteq> None \<and> matchHere False re cs)"

fun matchFrom :: "bool \<Rightarrow> atom list \<Rightarrow> string \<Rightarrow> bool" where
  "matchFrom atStart re [] = matchHere atStart re []"
| "matchFrom atStart re (ch # cs) = (matchHere atStart re (ch # cs) \<or> matchFrom False re cs)"

definition sampleRegexp :: "atom list regexp" where
  "sampleRegexp = \<lparr>compile = sample_compile, matches = matchFrom True\<rparr>"

subsection \<open>Concrete exchanges\<close>

text \<open>\<open>GET /index\<close> of the demo application, answered with status 200 and 19 bytes.\<close>

definition indexRequest :: request where
  "indexRequest =
     \<lparr>URL = Some \<lparr>Path = ''/index'', url_String = ''/index''\<rparr>, Method = ''GET'',
      Proto = ''HTTP/1.1'', Header = [(''Accept'', [''*/*''])], Host = ''localhost:8080'',
      ContentLength = 0\<rparr>"


text \<open>\<open>GET /forbidden\<close>, answered with status 403.\<close>

definition forbiddenExchange :: gin_Context where
  "forbiddenExchange =
     \<lparr>Request = indexRequest\<lparr>URL := Some \<lparr>Path = ''/forbidden'', url_String = ''/forbidden''\<rparr>\<rparr>,
      Writer = \<lparr>Status = 403, Size = 23\<rparr>\<rparr>"


text \<open>A request value whose \<open>URL\<close> field is \<open>nil\<close>.\<close>

definition noURLExchange :: gin_Context where
  "noURLExchange = \<lparr>Request = indexRequest\<lparr>URL := None\<rparr>, Writer = \<lparr>Status = 200, Size = 19\<rparr>\<rparr>"

text \<open>Options with no exclusion pattern and a mapping function that returns a route name.\<close>

definition routeMapping :: RequestLabelMappingFn where
  "routeMapping c = Inr ''/index''"

definition routeOpts :: PromOpts where
  "routeOpts =
     \<lparr>ExcludeRegexStatus = [], ExcludeRegexEndpoint = [], ExcludeRegexMethod = [],
      EndpointLabelMappingFn = Some routeMapping\<rparr>"

text \<open>The status exclusion pattern \<open>^4\d\d$\<close>, with no mapping function supplied.\<close>

definition excludeClientErrors :: PromOpts where
  "excludeClientErrors =
     \<lparr>ExcludeRegexStatus = ''^4'' @ [CHR 0x5C] @ ''d'' @ [CHR 0x5C] @ ''d$'',
      ExcludeRegexEndpoint = [], ExcludeRegexMethod = [], EndpointLabelMappingFn = None\<rparr>"

section \<open>Properties\<close>

subsection \<open>Auxiliary facts\<close>

lemma valuesSize_eq: "valuesSize sz vs = sz + of_nat (\<Sum>v \<leftarrow> vs. length v)"
  by (induction vs arbitrary: sz) (simp_all add: len_def)

lemma headerSize_eq: "headerSize sz h = sz + of_nat (headerBytes h)"
  by (induction sz h rule: headerSize.induct) (simp_all add: headerBytes_def valuesSize_eq len_def)

lemma calc_present:
  "URL r = Some u \<Longrightarrow>
   calcRequestSize r =
     Inr (sint (of_nat (partsSize r) + (if ContentLength r = - 1 then 0 else ContentLength r) :: 64 word))"
  by (simp add: calcRequestSize_def Let_def headerSize_eq partsSize_def len_def)

lemma calc_absent: "URL r = None \<Longrightarrow> calcRequestSize r = Inl NilPointerDereference"
  by (simp add: calcRequestSize_def URL_String_def)





lemma checkLabel_matches: "checkLabel rx label pattern = (\<not> labelMatches rx pattern label)"
  by (simp add: checkLabel_def labelMatches_def regexp_MatchString_def split: sum.splits)

lemma handler_panic:
  "labelValues promOpts c = Inl e \<Longrightarrow> handler rx promOpts start now c reg = (reg, Some e)"
  by (simp add: handler_def)

lemma handler_suppressed:
  "labelValues promOpts c = Inr (status, endpoint, method) \<Longrightarrow>
   \<not> (checkLabel rx status (ExcludeRegexStatus promOpts) \<and>
      checkLabel rx endpoint (ExcludeRegexEndpoint promOpts) \<and>
      checkLabel rx method (ExcludeRegexMethod promOpts)) \<Longrightarrow>
   handler rx promOpts start now c reg = (reg, None)"
  by (simp add: handler_def)


lemma handler_interrupted:
  "labelValues promOpts c = Inr (status, endpoint, method) \<Longrightarrow>
   checkLabel rx status (ExcludeRegexStatus promOpts) \<Longrightarrow>
   checkLabel rx endpoint (ExcludeRegexEndpoint promOpts) \<Longrightarrow>
   checkLabel rx method (ExcludeRegexMethod promOpts) \<Longrightarrow>
   calcRequestSize (Request c) = Inl e \<Longrightarrow>
   handler rx promOpts start now c reg =
     (reg\<lparr>reqCount := Inc (reqCount reg) [status, endpoint, method],
          reqDuration := Observe (reqDuration reg) [status, endpoint, method] (now - start)\<rparr>,
      Some e)"
  by (simp add: handler_def Let_def)

text \<open>
  \<open>PromMiddleware\<close> returns the handler closed over options whose label derivation is
  the tuple of the specification and whose patterns are the ones configured.
\<close>

lemma PromMiddleware_handler:
  "\<exists>promOpts. PromMiddleware rx popts = handler rx promOpts \<and>
      (\<forall>c. labelValues promOpts c = spec_labelTuple popts c) \<and>
      (ExcludeRegexStatus promOpts, ExcludeRegexEndpoint promOpts, ExcludeRegexMethod promOpts)
        = spec_patterns popts"
proof (cases popts)
  case None
  have "PromMiddleware rx None = handler rx NewDefaultOpts"
    by (simp add: PromMiddleware_def NewDefaultOpts_def)
  moreover have "\<forall>c. labelValues NewDefaultOpts c = spec_labelTuple None c"
    by (simp add: labelValues_def spec_labelTuple_def spec_endpointLabel_def NewDefaultOpts_def
        Let_def split: sum.splits)
  moreover have "(ExcludeRegexStatus NewDefaultOpts, ExcludeRegexEndpoint NewDefaultOpts,
      ExcludeRegexMethod NewDefaultOpts) = spec_patterns None"
    by (simp add: NewDefaultOpts_def spec_patterns_def)
  ultimately show ?thesis using None by blast
next
  case (Some opts)
  show ?thesis
  proof (cases "EndpointLabelMappingFn opts")
    case None
    let ?o = "opts\<lparr>EndpointLabelMappingFn := Some rawPath\<rparr>"
    have "PromMiddleware rx (Some opts) = handler rx ?o"
      using None by (simp add: PromMiddleware_def)
    moreover have "\<forall>c. labelValues ?o c = spec_labelTuple (Some opts) c"
      using None by (simp add: labelValues_def spec_labelTuple_def spec_endpointLabel_def
          Let_def split: sum.splits)
    moreover have "(ExcludeRegexStatus ?o, ExcludeRegexEndpoint ?o, ExcludeRegexMethod ?o)
        = spec_patterns (Some opts)"
      by (simp add: spec_patterns_def)
    ultimately show ?thesis using Some by blast
  next
    case (Some f)
    have "PromMiddleware rx (Some opts) = handler rx opts"
      using Some by (simp add: PromMiddleware_def)
    moreover have "\<forall>c. labelValues opts c = spec_labelTuple (Some opts) c"
      using Some by (simp add: labelValues_def spec_labelTuple_def spec_endpointLabel_def
          Let_def split: sum.splits)
    moreover have "(ExcludeRegexStatus opts, ExcludeRegexEndpoint opts, ExcludeRegexMethod opts)
        = spec_patterns (Some opts)"
      by (simp add: spec_patterns_def)
    ultimately show ?thesis using \<open>popts = Some opts\<close> by blast
  qed
qed









text \<open>The concrete exchanges, evaluated.\<close>

lemma Itoa_200: "Itoa 200 = ''200''"
  by code_simp


lemma Itoa_403: "Itoa 403 = ''403''"
  by code_simp



lemma calc_noURL: "calcRequestSize (Request noURLExchange) = Inl NilPointerDereference"
  by (simp add: calc_absent noURLExchange_def)

subsection \<open>The instrumentation middleware\<close>




text \<open>
  The same request with a mapping function that does not read the URL: the count and
  the duration are updated, then \<open>calcRequestSize\<close> panics, and neither size series
  gets its observation.
\<close>

lemma noURL_route_mapping:
  "PromMiddleware sampleRegexp (Some routeOpts) 0 5 noURLExchange emptyRegistry =
     (emptyRegistry\<lparr>reqCount := (\<lambda>lvs. 0)([''200'', ''/index'', ''GET''] := 1),
        reqDuration := (\<lambda>lvs. [])([''200'', ''/index'', ''GET''] := [5])\<rparr>,
      Some NilPointerDereference)"
proof -
  have l: "labelValues routeOpts noURLExchange = Inr (''200'', ''/index'', ''GET'')"
    by (simp add: labelValues_def routeOpts_def routeMapping_def noURLExchange_def
        indexRequest_def Itoa_200)
  have "handler sampleRegexp routeOpts 0 5 noURLExchange emptyRegistry =
     (emptyRegistry\<lparr>reqCount := Inc (reqCount emptyRegistry) [''200'', ''/index'', ''GET''],
          reqDuration := Observe (reqDuration emptyRegistry) [''200'', ''/index'', ''GET''] (5 - 0)\<rparr>,
      Some NilPointerDereference)"
    by (rule handler_interrupted [OF l _ _ _ calc_noURL]) (simp_all add: routeOpts_def checkLabel_def)
  then show ?thesis
    by (simp add: PromMiddleware_def routeOpts_def Inc_def Observe_def emptyRegistry_def)
qed

text \<open>
  C2. When the status label, the endpoint label or the method label of a request
  matches the exclusion pattern configured for it, the handler leaves the registry as
  it found it: no count, duration, request-size or response-size series is modified.
\<close>

theorem suppressed_no_update:
  assumes "labelMatches rx (ExcludeRegexStatus opts) (Itoa (Status (Writer c))) \<or>
           (\<exists>endpoint. spec_endpointLabel (Some opts) c = Inr endpoint \<and>
                       labelMatches rx (ExcludeRegexEndpoint opts) endpoint) \<or>
           labelMatches rx (ExcludeRegexMethod opts) (Method (Request c))"
  shows "fst (PromMiddleware rx (Some opts) start now c reg) = reg"
proof -
  obtain promOpts where mw: "PromMiddleware rx (Some opts) = handler rx promOpts"
    and lv: "\<And>c. labelValues promOpts c = spec_labelTuple (Some opts) c"
    and pats: "(ExcludeRegexStatus promOpts, ExcludeRegexEndpoint promOpts,
                ExcludeRegexMethod promOpts) = spec_patterns (Some opts)"
    using PromMiddleware_handler [of rx "Some opts"] by blast
  show ?thesis
  proof (cases "spec_endpointLabel (Some opts) c")
    case (Inl e)
    then have "labelValues promOpts c = Inl e" by (simp add: lv spec_labelTuple_def)
    then show ?thesis by (simp add: mw handler_panic)
  next
    case (Inr endpoint)
    then have l: "labelValues promOpts c =
        Inr (Itoa (Status (Writer c)), endpoint, Method (Request c))"
      by (simp add: lv spec_labelTuple_def)
    have "\<not> (checkLabel rx (Itoa (Status (Writer c))) (ExcludeRegexStatus promOpts) \<and>
             checkLabel rx endpoint (ExcludeRegexEndpoint promOpts) \<and>
             checkLabel rx (Method (Request c)) (ExcludeRegexMethod promOpts))"
      using assms pats Inr by (auto simp: checkLabel_matches spec_patterns_def)
    then show ?thesis by (simp add: mw handler_suppressed [OF l])
  qed
qed

text \<open>\<open>GET /forbidden\<close> (403) under the status exclusion pattern \<open>^4\d\d$\<close>.\<close>

theorem suppressed_no_update_witness:
  "labelMatches sampleRegexp (ExcludeRegexStatus excludeClientErrors)
     (Itoa (Status (Writer forbiddenExchange))) \<and>
   fst (PromMiddleware sampleRegexp (Some excludeClientErrors) 0 5 forbiddenExchange emptyRegistry)
     = emptyRegistry"
proof -
  have m: "labelMatches sampleRegexp (ExcludeRegexStatus excludeClientErrors)
     (Itoa (Status (Writer forbiddenExchange)))"
    by (simp add: labelMatches_def excludeClientErrors_def forbiddenExchange_def Itoa_403
        sampleRegexp_def digitValue_def)
  show ?thesis
    using m suppressed_no_update [of sampleRegexp excludeClientErrors forbiddenExchange 0 5
        emptyRegistry]
    by simp
qed

text \<open>
  C3. With the empty pattern \<open>checkLabel\<close> passes for every label value, the empty
  string included; and a pattern that does not compile gives, for every label value,
  the answer of the empty pattern: the check passes.
\<close>

theorem checkLabel_fails_open:
  "checkLabel rx label [] \<and>
   (compile rx pattern = Inl err \<longrightarrow>
      checkLabel rx label pattern \<and> checkLabel rx label pattern = checkLabel rx label [])"
  by (simp add: checkLabel_def regexp_MatchString_def)

theorem checkLabel_fails_open_witness:
  "compile sampleRegexp ''('' = Inl ErrMissingParen \<and>
   checkLabel sampleRegexp [] [] \<and> checkLabel sampleRegexp ''GET'' ''('' \<and>
   checkLabel sampleRegexp [] ''(''"
  using checkLabel_fails_open [of sampleRegexp "[]" "''(''" ErrMissingParen]
    checkLabel_fails_open [of sampleRegexp "''GET''" "''(''" ErrMissingParen]
  by (simp add: sampleRegexp_def)

subsection \<open>The request size\<close>




text \<open>
  C5. \<open>calcRequestSize\<close> reads the URL string only in the branch where the URL
  reference is absent, where the read dereferences \<open>nil\<close>. For a request whose URL
  reference is present the URL's length does not contribute: the result is the wrapped
  sum of the other parts, whatever the URL string is.
\<close>

theorem URL_length_not_counted:
  "(URL r = Some u \<longrightarrow>
      calcRequestSize r =
        Inr (sint (of_nat (partsSize r) +
                   (if ContentLength r = - 1 then 0 else ContentLength r) :: 64 word)) \<and>
      calcRequestSize (r\<lparr>URL := Some (u\<lparr>url_String := s\<rparr>)\<rparr>) = calcRequestSize r) \<and>
   (URL r = None \<longrightarrow> calcRequestSize r = Inl NilPointerDereference)"
  by (simp add: calc_present calc_absent partsSize_def)

theorem URL_length_not_counted_witness:
  "URL indexRequest = Some \<lparr>Path = ''/index'', url_String = ''/index''\<rparr> \<and>
   calcRequestSize indexRequest = Inr 34 \<and>
   calcRequestSize
     (indexRequest\<lparr>URL := Some \<lparr>Path = ''/index'', url_String = ''/index?verbose=1''\<rparr>\<rparr>)
     = Inr 34 \<and>
   URL (indexRequest\<lparr>URL := None\<rparr>) = None \<and>
   calcRequestSize (indexRequest\<lparr>URL := None\<rparr>) = Inl NilPointerDereference"
  using URL_length_not_counted [of indexRequest "\<lparr>Path = ''/index'', url_String = ''/index''\<rparr>"
      "''/index?verbose=1''"]
    URL_length_not_counted [of "indexRequest\<lparr>URL := None\<rparr>"
      "\<lparr>Path = ''/index'', url_String = ''/index''\<rparr>" "''/index''"]
  by (simp add: indexRequest_def partsSize_def headerBytes_def)

text \<open>
  C10. For a request whose URL reference is present \<open>calcRequestSize\<close> returns a size
  (the panic of the absent-reference branch cannot occur), and the size is the same for
  every URL value: the function does not read it.
\<close>

theorem calcRequestSize_defined:
  assumes "URL r = Some u"
  shows "(\<exists>n. calcRequestSize r = Inr n) \<and>
         (\<forall>u'. calcRequestSize (r\<lparr>URL := Some u'\<rparr>) = calcRequestSize r)"
  using assms by (simp add: calc_present partsSize_def)

theorem calcRequestSize_defined_witness:
  "URL indexRequest = Some \<lparr>Path = ''/index'', url_String = ''/index''\<rparr> \<and>
   (\<exists>n. calcRequestSize indexRequest = Inr n) \<and>
   calcRequestSize (indexRequest\<lparr>URL := Some \<lparr>Path = ''/'', url_String = []\<rparr>\<rparr>) =
     calcRequestSize indexRequest"
proof -
  have u: "URL indexRequest = Some \<lparr>Path = ''/index'', url_String = ''/index''\<rparr>"
    by (simp add: indexRequest_def)
  show ?thesis using calcRequestSize_defined [OF u] u by simp
qed

subsection \<open>Labels, response size and defaults\<close>





text \<open>
  C9. \<open>PromMiddleware(nil)\<close> is, on every request, every clock reading and every
  registry, the handler of \<open>PromMiddleware(NewDefaultOpts())\<close>, whose options have no
  exclusion pattern and the raw-path mapping; and options with no mapping function give
  the handler of the same options with the raw-path mapping.
\<close>

theorem defaults_equivalent:
  "PromMiddleware rx None = PromMiddleware rx (Some NewDefaultOpts) \<and>
   PromMiddleware rx (Some (opts\<lparr>EndpointLabelMappingFn := None\<rparr>)) =
     PromMiddleware rx (Some (opts\<lparr>EndpointLabelMappingFn := Some rawPath\<rparr>)) \<and>
   spec_patterns (Some NewDefaultOpts) = ([], [], []) \<and>
   spec_endpointLabel (Some NewDefaultOpts) = rawPath"
  by (auto simp: PromMiddleware_def NewDefaultOpts_def spec_patterns_def spec_endpointLabel_def)

subsection \<open>The uptime ticker\<close>

text \<open>
  What the model can say about \<open>recordUpTime\<close>: after \<open>n\<close> ticks the uptime counter
  is \<open>n\<close> higher and the request series are untouched, and the request handler never
  changes the uptime counter. When the ticks arrive is the business of \<open>time.Tick\<close>
  and of the scheduler, outside this model.
\<close>

lemma uptime_recordUpTime: "uptime (recordUpTime n reg) = uptime reg + n"
  by (induction n arbitrary: reg) simp_all

lemma recordUpTime_frame:
  "reqCount (recordUpTime n reg) = reqCount reg \<and>
   reqDuration (recordUpTime n reg) = reqDuration reg \<and>
   reqSizeBytes (recordUpTime n reg) = reqSizeBytes reg \<and>
   respSizeBytes (recordUpTime n reg) = respSizeBytes reg"
  by (induction n arbitrary: reg) simp_all

lemma handler_uptime: "uptime (fst (handler rx promOpts start now c reg)) = uptime reg"
  by (auto simp: handler_def Let_def split: sum.splits prod.splits)

lemma PromMiddleware_uptime: "uptime (fst (PromMiddleware rx popts start now c reg)) = uptime reg"
  using PromMiddleware_handler [of rx popts] by (auto simp: handler_uptime)

end
